theory Spec2Isabelle
  imports Complex_Main "HOL-Library.Word"
begin

section \<open>JavaScript strings\<close>

text \<open>
  A JavaScript string is a sequence of UTF-16 code units; \<open>length\<close>, \<open>substring\<close>
  and the regular expressions of the source (none has the \<open>u\<close> flag) all work on code
  units.  ASCII literals of the source are written with \<open>str\<close>.
\<close>

type_synonym jschar = "16 word"
type_synonym jsstring = "jschar list"

definition str :: "string \<Rightarrow> jsstring" where
  "str s = map of_char s"

text \<open>The class \<open>\w\<close> of a regular expression without the \<open>u\<close> and \<open>i\<close> flags: \<open>[A-Za-z0-9_]\<close>.\<close>

definition isWordChar :: "jschar \<Rightarrow> bool" where
  "isWordChar c \<longleftrightarrow>
     (0x41 \<le> c \<and> c \<le> 0x5A) \<or> (0x61 \<le> c \<and> c \<le> 0x7A) \<or> (0x30 \<le> c \<and> c \<le> 0x39) \<or> c = 0x5F"

text \<open>
  The class \<open>\s\<close>, which is also the set that \<open>String.prototype.trim\<close> strips:
  ECMAScript's WhiteSpace (TAB, VT, FF, SP, NBSP, ZWNBSP and the category Zs) and
  LineTerminator (LF, CR, LS, PS).
\<close>

definition isSpace :: "jschar \<Rightarrow> bool" where
  "isSpace c \<longleftrightarrow>
     (0x09 \<le> c \<and> c \<le> 0x0D) \<or> c = 0x20 \<or> c = 0xA0 \<or> c = 0x1680 \<or>
     (0x2000 \<le> c \<and> c \<le> 0x200A) \<or> c = 0x2028 \<or> c = 0x2029 \<or> c = 0x202F \<or>
     c = 0x205F \<or> c = 0x3000 \<or> c = 0xFEFF"

text \<open>The class \<open>[a-zA-Z0-9#]\<close> of the entity pattern.\<close>

definition isEntityChar :: "jschar \<Rightarrow> bool" where
  "isEntityChar c \<longleftrightarrow>
     (0x61 \<le> c \<and> c \<le> 0x7A) \<or> (0x41 \<le> c \<and> c \<le> 0x5A) \<or> (0x30 \<le> c \<and> c \<le> 0x39) \<or> c = 0x23"

text \<open>The class \<open>[\w\s'-]\<close>, whose complement the sanitizer deletes.\<close>

definition isKept :: "jschar \<Rightarrow> bool" where
  "isKept c \<longleftrightarrow> isWordChar c \<or> isSpace c \<or> c = 0x27 \<or> c = 0x2D"

definition trim :: "jsstring \<Rightarrow> jsstring" where
  "trim s = rev (dropWhile isSpace (rev (dropWhile isSpace s)))"

definition substring :: "jsstring \<Rightarrow> nat \<Rightarrow> nat \<Rightarrow> jsstring" where
  "substring s a b = take (max a b - min a b) (drop (min a b) s)"

text \<open>\<open>String.prototype.includes\<close>: the needle occurs as a contiguous run.\<close>

fun includes_str :: "'a list \<Rightarrow> 'a list \<Rightarrow> bool" where
  "includes_str [] needle = (needle = [])"
| "includes_str (c # cs) needle = (take (length needle) (c # cs) = needle \<or> includes_str cs needle)"

section \<open>The sanitizer (background.js)\<close>

text \<open>
  \<open>.replace(/&[a-zA-Z0-9#]+;/g, '')\<close>: scanning from the left, a match starts at an
  ampersand followed by a non-empty run of class characters and a semicolon.  The run is
  taken greedily, and since neither the semicolon nor the ampersand is in the class no
  shorter run can match.  After a match the scan goes on behind it.
\<close>

function replaceEntities :: "jsstring \<Rightarrow> jsstring" where
  "replaceEntities [] = []"
| "replaceEntities (c # cs) =
     (if c = 0x26 \<and> takeWhile isEntityChar cs \<noteq> [] \<and>
         take 1 (dropWhile isEntityChar cs) = [0x3B]
      then replaceEntities (drop 1 (dropWhile isEntityChar cs))
      else c # replaceEntities cs)"
  by pat_completeness auto
termination
  by (relation "measure length")
     (auto simp: less_Suc_eq_le intro: order_trans [OF diff_le_self length_dropWhile_le])

text \<open>\<open>.replace(/[^\w\s'-]/g, '')\<close>\<close>

definition replaceDisallowed :: "jsstring \<Rightarrow> jsstring" where
  "replaceDisallowed s = filter isKept s"

text \<open>\<open>.replace(/\s+/g, ' ')\<close>: every maximal run of whitespace becomes one space.\<close>

function replaceWhitespace :: "jsstring \<Rightarrow> jsstring" where
  "replaceWhitespace [] = []"
| "replaceWhitespace (c # cs) =
     (if isSpace c then 0x20 # replaceWhitespace (dropWhile isSpace cs)
      else c # replaceWhitespace cs)"
  by pat_completeness auto
termination
  by (relation "measure length") (auto simp: less_Suc_eq_le intro: length_dropWhile_le)

definition sanitizeText :: "jsstring \<Rightarrow> jsstring" where
  "sanitizeText text = trim (replaceWhitespace (replaceDisallowed (replaceEntities text)))"

section \<open>Values exchanged with the browser\<close>

text \<open>A parsed JSON document, as \<open>response.json()\<close> yields it.\<close>

datatype json =
    JNull
  | JBool bool
  | JNumber rat
  | JString jsstring
  | JArray "json list"
  | JObject "(jsstring \<times> json) list"

text \<open>A thrown \<open>Error\<close> object: its constructor's name and its \<open>message\<close>.\<close>

datatype js_error = JsError (errorName: string) (message: jsstring)

text \<open>How a promise settles.\<close>

datatype 'a settled = Fulfilled 'a | Rejected js_error

text \<open>
  The result object of the fetcher: \<open>{success: true, data, word}\<close> or
  \<open>{success: false, error, word}\<close>.
\<close>

datatype envelope =
    Success (data: json) (word: jsstring)
  | Failure (error: jsstring) (word: jsstring)

fun success :: "envelope \<Rightarrow> bool" where
  "success (Success d w) = True"
| "success (Failure e w) = False"

text \<open>The messages of the background script to the content script, by their \<open>action\<close>.\<close>

datatype message =
    ShowLoading jsstring
  | ShowDefinition jsstring envelope
  | ShowError jsstring
  | OtherAction jsstring

text \<open>
  \<open>encodeURIComponent\<close> throws a \<open>URIError\<close> exactly when its argument holds a
  surrogate code unit that is not part of a high/low pair.  The encoded text itself only
  reaches the network and the link of the fallback popup and is not modelled.
\<close>

definition isHighSurrogate :: "jschar \<Rightarrow> bool" where
  "isHighSurrogate c \<longleftrightarrow> 0xD800 \<le> c \<and> c \<le> 0xDBFF"

definition isLowSurrogate :: "jschar \<Rightarrow> bool" where
  "isLowSurrogate c \<longleftrightarrow> 0xDC00 \<le> c \<and> c \<le> 0xDFFF"

fun hasLoneSurrogate :: "jsstring \<Rightarrow> bool" where
  "hasLoneSurrogate [] = False"
| "hasLoneSurrogate [c] = (isHighSurrogate c \<or> isLowSurrogate c)"
| "hasLoneSurrogate (c # d # ds) =
     (if isHighSurrogate c then \<not> isLowSurrogate d \<or> hasLoneSurrogate ds
      else isLowSurrogate c \<or> hasLoneSurrogate (d # ds))"

text \<open>The decimal digits of a number, as a template literal prints an integer.\<close>

function showNat :: "nat \<Rightarrow> jsstring" where
  "showNat n = (if n < 10 then [0x30 + of_nat n] else showNat (n div 10) @ [0x30 + of_nat (n mod 10)])"
  by pat_completeness auto
termination
  by (relation "measure id") auto

declare showNat.simps [simp del]

section \<open>The definition fetcher (background.js)\<close>

definition API_TIMEOUT :: nat where
  "API_TIMEOUT = 5000"

text \<open>
  What the network does with the one request of a lookup: \<open>fetch\<close> rejects, or it
  resolves with a response whose body \<open>response.json()\<close> parses or fails to parse.
  \<open>response.ok\<close> is the status being in the range 200..299.
\<close>

record response =
  status :: nat
  statusText :: jsstring
  jsonBody :: "json settled"

definition ok :: "response \<Rightarrow> bool" where
  "ok r \<longleftrightarrow> 200 \<le> status r \<and> status r \<le> 299"

text \<open>
  \<open>Promise.race\<close> takes the promise that settles first.  \<open>settlesAfter\<close> is the time in
  milliseconds after which the request promise settles, \<open>None\<close> when it never does; the
  timer of the timeout promise fires after \<open>API_TIMEOUT\<close> milliseconds.
\<close>

record network =
  fetchResult :: "response settled"
  settlesAfter :: "nat option"

definition apiPromise :: "network \<Rightarrow> json settled" where
  "apiPromise net =
     (case fetchResult net of
        Rejected e \<Rightarrow> Rejected e
      | Fulfilled r \<Rightarrow>
          if \<not> ok r
          then Rejected (JsError ''Error''
                 (str ''API returned '' @ showNat (status r) @ str '': '' @ statusText r))
          else jsonBody r)"

definition timeoutFirst :: "network \<Rightarrow> bool" where
  "timeoutFirst net = (case settlesAfter net of None \<Rightarrow> True | Some t \<Rightarrow> API_TIMEOUT \<le> t)"

definition race :: "network \<Rightarrow> json settled" where
  "race net = (if timeoutFirst net then Rejected (JsError ''Error'' (str ''API timeout''))
               else apiPromise net)"

text \<open>The \<open>catch\<close> block of the fetcher.\<close>

definition fetchCatch :: "jsstring \<Rightarrow> js_error \<Rightarrow> envelope" where
  "fetchCatch w e =
     Failure (if message e = str ''API timeout'' then str ''Request timed out''
              else str ''Failed to fetch definition'') w"

text \<open>The processing of the value the race resolved with.\<close>

fun processResult :: "jsstring \<Rightarrow> json \<Rightarrow> envelope" where
  "processResult w (JArray (first # rest)) = Success first w"
| "processResult w result = Failure (str ''No definition found'') w"

definition fetchDictionaryDefinition :: "network \<Rightarrow> jsstring \<Rightarrow> envelope" where
  "fetchDictionaryDefinition net w =
     (if hasLoneSurrogate w then fetchCatch w (JsError ''URIError'' (str ''URI malformed''))
      else case race net of
             Rejected e \<Rightarrow> fetchCatch w e
           | Fulfilled result \<Rightarrow> processResult w result)"

section \<open>The message router (background.js)\<close>

text \<open>
  What the router does, in order.  The answers of the browser to the first send, to the
  injection and to the second send are inputs.
\<close>

datatype action =
    SendMessage nat message
  | ExecuteScript nat string
  | Wait nat
  | LogError js_error

record delivery =
  firstSend :: "unit settled"
  injection :: "unit settled"
  secondSend :: "unit settled"

definition notInitialized :: "js_error \<Rightarrow> bool" where
  "notInitialized e \<longleftrightarrow>
     includes_str (message e) (str ''Could not establish connection'') \<or>
     includes_str (message e) (str ''Receiving end does not exist'')"

definition sendMessageToContentScript :: "delivery \<Rightarrow> nat \<Rightarrow> message \<Rightarrow> bool \<times> action list" where
  "sendMessageToContentScript d tabId msg =
     (case firstSend d of
        Fulfilled _ \<Rightarrow> (True, [SendMessage tabId msg])
      | Rejected e \<Rightarrow>
          if notInitialized e then
            (case injection d of
               Rejected retryError \<Rightarrow>
                 (False, [SendMessage tabId msg, ExecuteScript tabId ''content.js'',
                          LogError retryError])
             | Fulfilled _ \<Rightarrow>
                 (case secondSend d of
                    Fulfilled _ \<Rightarrow>
                      (True, [SendMessage tabId msg, ExecuteScript tabId ''content.js'',
                              Wait 100, SendMessage tabId msg])
                  | Rejected retryError \<Rightarrow>
                      (False, [SendMessage tabId msg, ExecuteScript tabId ''content.js'',
                               Wait 100, SendMessage tabId msg, LogError retryError])))
          else (False, [SendMessage tabId msg, LogError e]))"

definition sends :: "action list \<Rightarrow> nat" where
  "sends as = length (filter (\<lambda>a. case a of SendMessage t m \<Rightarrow> True | _ \<Rightarrow> False) as)"

section \<open>The shortcut handler (background.js)\<close>

text \<open>
  The answers of the browser during one run of the handler: the stored flag, the active
  tab (queried in the body and again in the \<open>catch\<close> block), the selection of the page
  and the network.  The handler does not look at what a delivery returns, and a delivery
  does not throw, so the run is described by the calls it makes.
\<close>

record browser =
  storedFlag :: "json option settled"
  activeTab :: "nat option settled"
  pageSelection :: "jsstring settled"
  net :: network
  activeTabAgain :: "nat option settled"

datatype call =
    Sanitize jsstring
  | Deliver nat message
  | Fetch jsstring

definition getSelectedText :: "browser \<Rightarrow> jsstring" where
  "getSelectedText b = (case pageSelection b of Rejected e \<Rightarrow> [] | Fulfilled s \<Rightarrow> trim s)"

text \<open>
  The body of the \<open>try\<close> block.  \<open>selectedText\<close> is declared with \<open>const\<close>, so the
  assignment of the truncated text to it throws a \<open>TypeError\<close> and nothing behind it runs.
\<close>

definition lookup :: "browser \<Rightarrow> js_error + call list" where
  "lookup b =
     (case storedFlag b of
        Rejected e \<Rightarrow> Inl e
      | Fulfilled extensionEnabled \<Rightarrow>
          if \<not> (extensionEnabled \<noteq> Some (JBool False)) then Inr []
          else case activeTab b of
            Rejected e \<Rightarrow> Inl e
          | Fulfilled None \<Rightarrow> Inr []
          | Fulfilled (Some tab) \<Rightarrow>
              let selectedText = getSelectedText b in
              if selectedText = [] \<or> length (trim selectedText) = 0 then Inr []
              else if length selectedText > 50
                then Inl (JsError ''TypeError'' (str ''Assignment to constant variable.''))
              else
                let sanitizedText = sanitizeText selectedText in
                if length sanitizedText < 1 then Inr [Sanitize selectedText]
                else Inr [Sanitize selectedText,
                          Deliver tab (ShowLoading sanitizedText),
                          Fetch sanitizedText,
                          Deliver tab (ShowDefinition sanitizedText
                            (fetchDictionaryDefinition (net b) sanitizedText))])"

definition onCommand :: "browser \<Rightarrow> jsstring \<Rightarrow> call list" where
  "onCommand b command =
     (if command = str ''lookup-word'' then
        case lookup b of
          Inr calls \<Rightarrow> calls
        | Inl e \<Rightarrow>
            (case activeTabAgain b of
               Fulfilled (Some tab) \<Rightarrow>
                 [Deliver tab (ShowError (str ''Failed to fetch definition. Please try again.''))]
             | _ \<Rightarrow> [])
      else [])"

section \<open>The page as the content script sees it (content.js)\<close>

text \<open>
  Lengths and coordinates are JavaScript numbers, that is IEEE doubles.  The model takes
  the measures of a page as whole numbers of pixels in the signed 32-bit range, read with
  \<open>sint\<close>.  On such numbers every sum, difference, half and comparison that
  \<open>positionPopup\<close> computes is exact in double arithmetic (all intermediate values
  are multiples of one half far below \<open>2 ^ 53\<close>), so the integer and rational
  arithmetic below gives the numbers the code computes.  Measures with a fractional part
  are outside the model.  \<open>measuredHeight\<close> and \<open>measuredWidth\<close> are the box
  of the popup after it was appended invisibly; \<open>rendered\<close> is what evaluating the
  template of the definition popup (\<open>definition.data.word\<close> and \<open>formatDefinition\<close>)
  gives: the markup, or the \<open>TypeError\<close> thrown on a malformed entry.
\<close>

type_synonym pixels = "32 word"

record rect =
  rectTop :: pixels
  rectBottom :: pixels
  rectLeft :: pixels
  rectWidth :: pixels

record page =
  rangeCount :: nat
  rangeRect :: rect
  pageYOffset :: pixels
  docScrollTop :: pixels
  pageXOffset :: pixels
  docScrollLeft :: pixels
  innerHeight :: pixels
  innerWidth :: pixels
  measuredHeight :: pixels
  measuredWidth :: pixels
  backgroundColor :: jsstring
  bodyClassDark :: bool
  rootClassDark :: bool
  rendered :: "jsstring settled"

subsection \<open>Theme detection\<close>

definition isDigit :: "jschar \<Rightarrow> bool" where
  "isDigit c \<longleftrightarrow> 0x30 \<le> c \<and> c \<le> 0x39"

text \<open>\<open>Number\<close> of a string of decimal digits.\<close>

definition digitsValue :: "jsstring \<Rightarrow> nat" where
  "digitsValue ds = foldl (\<lambda>a d. 10 * a + unat (d - 0x30)) 0 ds"

text \<open>
  A match of \<open>/(\d+),\s*/\<close> or, for the last component, of \<open>/(\d+)\)/\<close> at the
  start of the text: the digits and the text behind the match.  The classes of a run and
  of what follows it are disjoint, so the greedy match is the only one.
\<close>

definition component :: "jschar \<Rightarrow> bool \<Rightarrow> jsstring \<Rightarrow> (jsstring \<times> jsstring) option" where
  "component sep spaces s =
     (let ds = takeWhile isDigit s; r = dropWhile isDigit s in
      if ds \<noteq> [] \<and> take 1 r = [sep]
      then Some (ds, if spaces then dropWhile isSpace (drop 1 r) else drop 1 r)
      else None)"

text \<open>A match of \<open>/rgb\((\d+),\s*(\d+),\s*(\d+)\)/\<close> at the start of the text.\<close>

definition rgbAt :: "jsstring \<Rightarrow> (nat \<times> nat \<times> nat) option" where
  "rgbAt s =
     (if take 4 s = str ''rgb('' then
        case component 0x2C True (drop 4 s) of
          None \<Rightarrow> None
        | Some (r, s1) \<Rightarrow>
            (case component 0x2C True s1 of
               None \<Rightarrow> None
             | Some (g, s2) \<Rightarrow>
                 (case component 0x29 False s2 of
                    None \<Rightarrow> None
                  | Some (b, s3) \<Rightarrow> Some (digitsValue r, digitsValue g, digitsValue b)))
      else None)"

text \<open>\<open>backgroundColor.match(...)\<close>: the leftmost match.\<close>

fun rgbMatch :: "jsstring \<Rightarrow> (nat \<times> nat \<times> nat) option" where
  "rgbMatch [] = rgbAt []"
| "rgbMatch (c # cs) = (case rgbAt (c # cs) of Some m \<Rightarrow> Some m | None \<Rightarrow> rgbMatch cs)"

record theme_colors =
  bgColor :: string
  textColor :: string
  borderColor :: string
  shadowColor :: string

record theme_info =
  isDark :: bool
  brightness :: real
  colors :: theme_colors

definition luma :: "nat \<Rightarrow> nat \<Rightarrow> nat \<Rightarrow> real" where
  "luma r g b = (real r * 299 + real g * 587 + real b * 114) / 1000"

definition calculateContrastColors :: "real \<Rightarrow> bool \<Rightarrow> theme_colors" where
  "calculateContrastColors bright dark =
     (if bright > 200 then
        \<lparr>bgColor = ''#2c3e50'', textColor = ''#ffffff'', borderColor = ''#34495e'',
         shadowColor = ''rgba(0, 0, 0, 0.3)''\<rparr>
      else if bright > 128 then
        \<lparr>bgColor = ''#34495e'', textColor = ''#ecf0f1'', borderColor = ''#2c3e50'',
         shadowColor = ''rgba(0, 0, 0, 0.25)''\<rparr>
      else
        \<lparr>bgColor = ''#ffffff'', textColor = ''#2c3e50'', borderColor = ''#e9ecef'',
         shadowColor = ''rgba(0, 0, 0, 0.15)''\<rparr>)"

definition detectThemeAndContrast :: "page \<Rightarrow> theme_info" where
  "detectThemeAndContrast pg =
     (let bright = (case rgbMatch (backgroundColor pg) of
                      None \<Rightarrow> 255
                    | Some (r, g, b) \<Rightarrow> luma r g b);
          isDarkTheme = (bright < 128 \<or> bodyClassDark pg \<or> rootClassDark pg \<or>
                         includes_str (backgroundColor pg) (str ''rgb(0, 0, 0)'') \<or>
                         includes_str (backgroundColor pg) (str ''rgb(20, 20, 20)''))
      in \<lparr>isDark = isDarkTheme, brightness = bright,
          colors = calculateContrastColors bright isDarkTheme\<rparr>)"

subsection \<open>Placement\<close>

text \<open>\<open>a || b\<close> on numbers: \<open>b\<close> when \<open>a\<close> is zero.\<close>

definition orElse :: "pixels \<Rightarrow> pixels \<Rightarrow> int" where
  "orElse a b = (if sint a = 0 then sint b else sint a)"

definition scrollTop :: "page \<Rightarrow> int" where
  "scrollTop pg = orElse (pageYOffset pg) (docScrollTop pg)"

definition scrollLeft :: "page \<Rightarrow> int" where
  "scrollLeft pg = orElse (pageXOffset pg) (docScrollLeft pg)"

definition popupHeight :: "page \<Rightarrow> int" where
  "popupHeight pg = sint (measuredHeight pg)"

definition popupWidth :: "page \<Rightarrow> int" where
  "popupWidth pg = sint (measuredWidth pg)"

definition spaceAbove :: "page \<Rightarrow> int" where
  "spaceAbove pg = sint (rectTop (rangeRect pg))"

definition spaceBelow :: "page \<Rightarrow> int" where
  "spaceBelow pg = sint (innerHeight pg) - sint (rectBottom (rangeRect pg))"

definition margin :: int where
  "margin = 5"

text \<open>The pair \<open>(positionAbove, finalTop)\<close> of \<open>positionPopup\<close>.\<close>

definition vertical :: "page \<Rightarrow> bool \<times> int" where
  "vertical pg =
     (if spaceAbove pg \<ge> popupHeight pg + margin then
        (True, sint (rectTop (rangeRect pg)) + scrollTop pg - popupHeight pg - margin)
      else if spaceBelow pg \<ge> popupHeight pg + margin then
        (False, sint (rectBottom (rangeRect pg)) + scrollTop pg + margin)
      else if spaceAbove pg > spaceBelow pg then
        (True, max 10 (sint (rectTop (rangeRect pg)) + scrollTop pg - popupHeight pg - margin))
      else
        (False, min (sint (innerHeight pg) + scrollTop pg - popupHeight pg - 10)
                    (sint (rectBottom (rangeRect pg)) + scrollTop pg + margin)))"

definition positionAbove :: "page \<Rightarrow> bool" where
  "positionAbove pg = fst (vertical pg)"

definition finalTop :: "page \<Rightarrow> int" where
  "finalTop pg = snd (vertical pg)"

text \<open>
  The horizontal position before it is kept within the viewport; the two halves make it a
  multiple of one half.
\<close>

definition centredLeft :: "page \<Rightarrow> rat" where
  "centredLeft pg =
     of_int (sint (rectLeft (rangeRect pg)) + scrollLeft pg)
       + of_int (sint (rectWidth (rangeRect pg))) / 2 - of_int (popupWidth pg) / 2"

definition viewportWidth :: "page \<Rightarrow> int" where
  "viewportWidth pg = sint (innerWidth pg)"

definition minLeft :: rat where
  "minLeft = 10"

definition maxLeft :: "page \<Rightarrow> rat" where
  "maxLeft pg = of_int (viewportWidth pg - popupWidth pg - 10)"

definition finalLeft :: "page \<Rightarrow> rat" where
  "finalLeft pg =
     (if centredLeft pg < minLeft then minLeft
      else if centredLeft pg > maxLeft pg then maxLeft pg
      else centredLeft pg)"

subsection \<open>The popup and the state of the content script\<close>

text \<open>
  What the popup shows: nothing yet, the loading line for a text, the markup of a
  definition, or the fallback with the search link for a text.
\<close>

datatype content =
    Blank
  | LoadingContent jsstring
  | DefinitionContent jsstring
  | ErrorContent jsstring

text \<open>
  A popup element.  \<open>pid\<close> is its identity; \<open>escHandler\<close> and \<open>clickHandler\<close> are the
  properties \<open>_escHandler\<close> and \<open>_clickHandler\<close>, holding the identity of a listener.
\<close>

record popup =
  pid :: nat
  themeInfo :: theme_info
  innerHTML :: content
  styleTop :: int
  styleLeft :: rat
  visible :: bool
  above :: "bool option"
  escHandler :: "nat option"
  clickHandler :: "nat option"

text \<open>
  The three global variables, the popup elements that are children of \<open>document.body\<close>,
  the listeners registered on \<open>document\<close> (a click listener with the popup its closure
  holds), and the supply of identities for new objects.
\<close>

record state =
  currentPopup :: "popup option"
  currentSelection :: "rect option"
  isPopupVisible :: bool
  bodyPopups :: "nat list"
  keydownListeners :: "nat list"
  clickListeners :: "(nat \<times> nat) list"
  fresh :: nat

definition initial :: state where
  "initial = \<lparr>currentPopup = None, currentSelection = None, isPopupVisible = False,
              bodyPopups = [], keydownListeners = [], clickListeners = [], fresh = 0\<rparr>"

definition removeCurrentPopup :: "state \<Rightarrow> state" where
  "removeCurrentPopup s =
     (case currentPopup s of
        None \<Rightarrow> s
      | Some p \<Rightarrow>
          s\<lparr>keydownListeners :=
               (case escHandler p of
                  None \<Rightarrow> keydownListeners s
                | Some h \<Rightarrow> remove1 h (keydownListeners s)),
            clickListeners :=
               (case clickHandler p of
                  None \<Rightarrow> clickListeners s
                | Some h \<Rightarrow> filter (\<lambda>l. fst l \<noteq> h) (clickListeners s)),
            bodyPopups :=
               (if pid p \<in> set (bodyPopups s) then remove1 (pid p) (bodyPopups s)
                else bodyPopups s),
            currentPopup := None,
            currentSelection := None,
            isPopupVisible := False\<rparr>)"

definition createPopupElement :: "page \<Rightarrow> state \<Rightarrow> popup \<times> state" where
  "createPopupElement pg s =
     (\<lparr>pid = fresh s, themeInfo = detectThemeAndContrast pg, innerHTML = Blank,
       styleTop = 0, styleLeft = 0, visible = True, above = None,
       escHandler = None, clickHandler = None\<rparr>,
      s\<lparr>fresh := fresh s + 1\<rparr>)"

text \<open>
  \<open>positionPopup(currentPopup, currentSelection)\<close>: the popup is appended to the body
  (\<open>appendChild\<close> moves a node that is already a child to the end) and positioned.
\<close>

definition positionPopup :: "page \<Rightarrow> state \<Rightarrow> state" where
  "positionPopup pg s =
     (case currentPopup s of
        None \<Rightarrow> s
      | Some p \<Rightarrow>
          s\<lparr>bodyPopups := filter (\<lambda>q. q \<noteq> pid p) (bodyPopups s) @ [pid p],
            currentPopup := Some (p\<lparr>styleTop := finalTop pg, styleLeft := finalLeft pg,
                                    visible := True, above := Some (positionAbove pg)\<rparr>)\<rparr>)"

text \<open>
  \<open>setupPopupEventListeners(currentPopup)\<close>: two new closures are registered on the
  document and stored in the popup.  (The listener of the close button sits on the button
  itself and goes with the popup.)
\<close>

definition setupPopupEventListeners :: "state \<Rightarrow> state" where
  "setupPopupEventListeners s =
     (case currentPopup s of
        None \<Rightarrow> s
      | Some p \<Rightarrow>
          s\<lparr>keydownListeners := keydownListeners s @ [fresh s],
            clickListeners := clickListeners s @ [(fresh s + 1, pid p)],
            currentPopup := Some (p\<lparr>escHandler := Some (fresh s),
                                    clickHandler := Some (fresh s + 1)\<rparr>),
            fresh := fresh s + 2\<rparr>)"

text \<open>
  The part the three show functions share behind the check of the selection: the range
  is kept, the element created and assigned, its content set (which may throw, leaving
  the new element assigned but detached), then it is positioned, shown and wired.
\<close>

definition constructPopup :: "page \<Rightarrow> content settled \<Rightarrow> state \<Rightarrow> js_error option \<times> state" where
  "constructPopup pg c s =
     (let s1 = s\<lparr>currentSelection := Some (rangeRect pg)\<rparr>;
          (p, s2) = createPopupElement pg s1;
          s3 = s2\<lparr>currentPopup := Some p\<rparr>
      in case c of
           Rejected e \<Rightarrow> (Some e, s3)
         | Fulfilled html \<Rightarrow>
             (None,
              setupPopupEventListeners
                ((positionPopup pg (s3\<lparr>currentPopup := Some (p\<lparr>innerHTML := html\<rparr>)\<rparr>))
                   \<lparr>isPopupVisible := True\<rparr>)))"

definition showLoadingPopup :: "page \<Rightarrow> jsstring \<Rightarrow> state \<Rightarrow> js_error option \<times> state" where
  "showLoadingPopup pg selectedText s =
     (let s1 = removeCurrentPopup s in
      if rangeCount pg = 0 then (None, s1)
      else constructPopup pg (Fulfilled (LoadingContent selectedText)) s1)"

definition showErrorPopup :: "page \<Rightarrow> jsstring \<Rightarrow> jsstring \<Rightarrow> state \<Rightarrow> js_error option \<times> state" where
  "showErrorPopup pg err selectedText s =
     (let s1 = removeCurrentPopup s in
      if rangeCount pg = 0 then (None, s1)
      else constructPopup pg
             (if hasLoneSurrogate selectedText
              then Rejected (JsError ''URIError'' (str ''URI malformed''))
              else Fulfilled (ErrorContent selectedText)) s1)"

definition showDefinitionPopup :: "page \<Rightarrow> jsstring \<Rightarrow> envelope \<Rightarrow> state \<Rightarrow> js_error option \<times> state" where
  "showDefinitionPopup pg selectedText definition s =
     (let s1 = removeCurrentPopup s in
      if \<not> success definition then showErrorPopup pg (error definition) selectedText s1
      else if rangeCount pg = 0 then (None, s1)
      else constructPopup pg
             (case rendered pg of
                Rejected e \<Rightarrow> Rejected e
              | Fulfilled html \<Rightarrow> Fulfilled (DefinitionContent html)) s1)"

text \<open>The message listener and its response.\<close>

datatype reply = ReplySuccess | ReplyFailure jsstring

definition onMessage :: "page \<Rightarrow> message \<Rightarrow> state \<Rightarrow> reply \<times> state" where
  "onMessage pg msg s =
     (let (thrown, s') =
            (case msg of
               ShowLoading selectedText \<Rightarrow> showLoadingPopup pg selectedText s
             | ShowDefinition selectedText definition \<Rightarrow>
                 showDefinitionPopup pg selectedText definition s
             | ShowError err \<Rightarrow> showErrorPopup pg err [] s
             | OtherAction a \<Rightarrow> (None, s))
      in (case thrown of None \<Rightarrow> ReplySuccess | Some e \<Rightarrow> ReplyFailure (message e), s'))"

text \<open>
  The gestures that dismiss a popup.  A listener that was removed while the event is
  dispatched is not called any more.
\<close>

datatype target = Inside nat | CloseButton nat | Elsewhere

fun containedIn :: "target \<Rightarrow> nat \<Rightarrow> bool" where
  "containedIn (Inside q) p = (q = p)"
| "containedIn (CloseButton q) p = (q = p)"
| "containedIn Elsewhere p = False"

definition escHandlerRun :: "state \<Rightarrow> nat \<Rightarrow> state" where
  "escHandlerRun s h =
     (if h \<in> set (keydownListeners s) \<and> isPopupVisible s then removeCurrentPopup s else s)"

definition clickHandlerRun :: "target \<Rightarrow> state \<Rightarrow> nat \<times> nat \<Rightarrow> state" where
  "clickHandlerRun t s l =
     (if l \<in> set (clickListeners s) \<and> isPopupVisible s \<and> \<not> containedIn t (snd l)
      then removeCurrentPopup s else s)"

datatype event =
    Message page message
  | KeyDown jsstring
  | Click target
  | BeforeUnload

definition step :: "state \<Rightarrow> event \<Rightarrow> state" where
  "step s ev =
     (case ev of
        Message pg msg \<Rightarrow> snd (onMessage pg msg s)
      | KeyDown key \<Rightarrow>
          if key = str ''Escape'' then foldl escHandlerRun s (keydownListeners s) else s
      | Click t \<Rightarrow>
          (let s1 = (case t of
                       CloseButton q \<Rightarrow>
                         (if q \<in> set (bodyPopups s) then removeCurrentPopup s else s)
                     | _ \<Rightarrow> s)
           in foldl (clickHandlerRun t) s1 (clickListeners s))
      | BeforeUnload \<Rightarrow> removeCurrentPopup s)"

definition run :: "event list \<Rightarrow> state" where
  "run evs = foldl step initial evs"

section \<open>Notions used in the proofs\<close>

text \<open>Two neighbouring whitespace characters somewhere in a string.\<close>

fun adjacentSpaces :: "jsstring \<Rightarrow> bool" where
  "adjacentSpaces (a # b # s) = ((isSpace a \<and> isSpace b) \<or> adjacentSpaces (b # s))"
| "adjacentSpaces _ = False"

text \<open>
  The invariant of the content script: without a current popup nothing of a popup is on
  the page; a current popup is either detached and without listeners (its content threw),
  or it is the only popup of the body and its two listeners are the only ones registered.
\<close>

definition wired :: "state \<Rightarrow> bool" where
  "wired s =
     (case currentPopup s of
        None \<Rightarrow>
          bodyPopups s = [] \<and> keydownListeners s = [] \<and> clickListeners s = [] \<and>
          \<not> isPopupVisible s
      | Some p \<Rightarrow>
          pid p < fresh s \<and>
          (case (escHandler p, clickHandler p) of
             (None, None) \<Rightarrow>
               bodyPopups s = [] \<and> keydownListeners s = [] \<and> clickListeners s = [] \<and>
               \<not> isPopupVisible s
           | (Some h, Some k) \<Rightarrow>
               bodyPopups s = [pid p] \<and> keydownListeners s = [h] \<and>
               clickListeners s = [(k, pid p)] \<and> isPopupVisible s
           | _ \<Rightarrow> False))"

text \<open>The three messages that show a popup.\<close>

fun isShow :: "message \<Rightarrow> bool" where
  "isShow (OtherAction a) = False"
| "isShow m = True"

text \<open>The text of an opaque colour as a browser serialises a computed style.\<close>

definition rgbText :: "nat \<Rightarrow> nat \<Rightarrow> nat \<Rightarrow> jsstring" where
  "rgbText r g b =
     str ''rgb('' @ showNat r @ str '', '' @ showNat g @ str '', '' @ showNat b @ str '')''"

text \<open>Pages and messages for the examples.\<close>

definition lightPage :: page where
  "lightPage =
     \<lparr>rangeCount = 1,
      rangeRect = \<lparr>rectTop = 300, rectBottom = 320, rectLeft = 100, rectWidth = 80\<rparr>,
      pageYOffset = 0, docScrollTop = 0, pageXOffset = 0, docScrollLeft = 0,
      innerHeight = 800, innerWidth = 1200, measuredHeight = 120, measuredWidth = 300,
      backgroundColor = str ''rgb(255, 255, 255)'', bodyClassDark = False,
      rootClassDark = False, rendered = Fulfilled (str ''<p>No definition available</p>'')\<rparr>"

definition noSelectionPage :: page where
  "noSelectionPage = lightPage\<lparr>rangeCount := 0\<rparr>"

definition darkPage :: page where
  "darkPage = lightPage\<lparr>backgroundColor := str ''rgb(40, 44, 52)''\<rparr>"

definition transparentPage :: page where
  "transparentPage = lightPage\<lparr>backgroundColor := str ''rgba(0, 0, 0, 0)''\<rparr>"

definition scrolledPage :: page where
  "scrolledPage =
     \<lparr>rangeCount = 1,
      rangeRect = \<lparr>rectTop = 150, rectBottom = 170, rectLeft = 500, rectWidth = 40\<rparr>,
      pageYOffset = 1000, docScrollTop = 1000, pageXOffset = 0, docScrollLeft = 0,
      innerHeight = 300, innerWidth = 1200, measuredHeight = 200, measuredWidth = 300,
      backgroundColor = str ''rgba(0, 0, 0, 0)'', bodyClassDark = False,
      rootClassDark = False, rendered = Fulfilled (str ''<p>No definition available</p>'')\<rparr>"

text \<open>Answers of the network and of the browser for the examples.\<close>

definition answered :: "nat \<Rightarrow> jsstring \<Rightarrow> json settled \<Rightarrow> network" where
  "answered code reason body =
     \<lparr>fetchResult = Fulfilled \<lparr>status = code, statusText = reason, jsonBody = body\<rparr>,
      settlesAfter = Some 120\<rparr>"

definition catEntry :: json where
  "catEntry = JObject [(str ''word'', JString (str ''cat'')), (str ''meanings'', JArray [])]"

definition notReady :: js_error where
  "notReady = JsError ''Error''
     (str ''Could not establish connection. Receiving end does not exist.'')"

definition restrictedPage :: delivery where
  "restrictedPage =
     \<lparr>firstSend = Rejected notReady,
      injection = Rejected (JsError ''Error'' (str ''Cannot access a chrome:// URL'')),
      secondSend = Rejected notReady\<rparr>"

definition lateScript :: delivery where
  "lateScript =
     \<lparr>firstSend = Rejected notReady, injection = Fulfilled (), secondSend = Fulfilled ()\<rparr>"

definition closedTab :: delivery where
  "closedTab =
     \<lparr>firstSend = Rejected notReady, injection = Fulfilled (),
      secondSend = Rejected (JsError ''Error'' (str ''No tab with id: 7.''))\<rparr>"

definition otherFailure :: delivery where
  "otherFailure =
     \<lparr>firstSend = Rejected (JsError ''Error'' (str ''The tab was closed.'')),
      injection = Fulfilled (), secondSend = Fulfilled ()\<rparr>"

definition selecting :: "jsstring \<Rightarrow> browser" where
  "selecting s =
     \<lparr>storedFlag = Fulfilled (Some (JBool True)), activeTab = Fulfilled (Some 7),
      pageSelection = Fulfilled s,
      net = answered 200 (str ''OK'') (Fulfilled (JArray [catEntry])),
      activeTabAgain = Fulfilled (Some 7)\<rparr>"

section \<open>The sanitizer's output\<close>

lemma isKept_space: "isKept 0x20"
  by (simp add: isKept_def isSpace_def)

lemma not_isKept_amp: "\<not> isKept 0x26"
  by (simp add: isKept_def isSpace_def isWordChar_def)

lemma set_replaceWhitespace: "set (replaceWhitespace s) \<subseteq> insert 0x20 (set s)"
proof (induction s rule: replaceWhitespace.induct)
  case 1
  show ?case by simp
next
  case (2 c cs)
  show ?case
  proof (cases "isSpace c")
    case True
    with 2 have "set (replaceWhitespace (dropWhile isSpace cs))
        \<subseteq> insert 0x20 (set (dropWhile isSpace cs))"
      by simp
    moreover have "set (dropWhile isSpace cs) \<subseteq> set cs"
      by (rule set_dropWhileD [THEN subsetI])
    ultimately show ?thesis using True by auto
  next
    case False
    with 2 show ?thesis by auto
  qed
qed

lemma set_trim: "set (trim s) \<subseteq> set s"
  unfolding trim_def by (auto dest!: set_dropWhileD)

lemma kept_sanitizeText: "set (sanitizeText t) \<subseteq> Collect isKept"
proof -
  have "set (sanitizeText t) \<subseteq> insert 0x20 (set (replaceDisallowed (replaceEntities t)))"
    unfolding sanitizeText_def using set_trim set_replaceWhitespace by blast
  then show ?thesis using isKept_space by (auto simp: replaceDisallowed_def)
qed

lemma hd_replaceWhitespace:
  "s \<noteq> [] \<Longrightarrow> isSpace (hd (replaceWhitespace s)) \<Longrightarrow> isSpace (hd s)"
  by (cases s) (auto split: if_splits)

lemma no_adjacent_replaceWhitespace: "\<not> adjacentSpaces (replaceWhitespace s)"
proof (induction s rule: replaceWhitespace.induct)
  case 1
  show ?case by simp
next
  case (2 c cs)
  show ?case
  proof (cases "isSpace c")
    case True
    let ?r = "dropWhile isSpace cs"
    from 2 True have ih: "\<not> adjacentSpaces (replaceWhitespace ?r)" by simp
    show ?thesis
    proof (cases "replaceWhitespace ?r")
      case Nil
      with True show ?thesis by simp
    next
      case (Cons b bs)
      then have ne: "?r \<noteq> []" by (metis list.distinct(1) replaceWhitespace.simps(1))
      then have "\<not> isSpace (hd ?r)" by (rule hd_dropWhile)
      with hd_replaceWhitespace [OF ne] Cons have "\<not> isSpace b" by auto
      with ih Cons True show ?thesis by simp
    qed
  next
    case False
    with 2 show ?thesis by (cases "replaceWhitespace cs") auto
  qed
qed

lemma adjacentSpaces_append:
  "isSpace a \<Longrightarrow> isSpace b \<Longrightarrow> adjacentSpaces (pre @ a # b # post)"
  by (induction pre rule: adjacentSpaces.induct) auto

lemma trim_split: "dropWhile isSpace s = trim s @ rev (takeWhile isSpace (rev (dropWhile isSpace s)))"
  unfolding trim_def by (metis rev_append rev_rev_ident takeWhile_dropWhile_id)

lemma trim_infix: "\<exists>l r. s = l @ trim s @ r"
proof -
  have "s = takeWhile isSpace s @ dropWhile isSpace s" by simp
  with trim_split [of s] show ?thesis by metis
qed

lemma trim_no_leading: "trim s = c # rest \<Longrightarrow> \<not> isSpace c"
proof -
  let ?d = "dropWhile isSpace s"
  assume "trim s = c # rest"
  with trim_split [of s] have "?d = c # (rest @ rev (takeWhile isSpace (rev ?d)))"
    by (metis append_Cons)
  then have "hd ?d = c" "?d \<noteq> []"
    by (metis list.sel(1), metis list.distinct(1))
  then show ?thesis using hd_dropWhile by metis
qed

lemma trim_no_trailing: "trim s = rest @ [c] \<Longrightarrow> \<not> isSpace c"
proof -
  let ?e = "dropWhile isSpace (rev (dropWhile isSpace s))"
  assume "trim s = rest @ [c]"
  then have "rev ?e = rest @ [c]" by (simp only: trim_def)
  then have "?e = c # rev rest" by (metis rev_eq_Cons_iff rev_rev_ident)
  then have "hd ?e = c" "?e \<noteq> []"
    by (metis list.sel(1), metis list.distinct(1))
  then show ?thesis using hd_dropWhile by metis
qed

lemma trim_idem: "trim (trim s) = trim s"
proof -
  have "dropWhile isSpace (trim s) = trim s"
  proof (cases "trim s")
    case Nil
    then show ?thesis by simp
  next
    case (Cons a as)
    with trim_no_leading have "\<not> isSpace a" by blast
    with Cons show ?thesis by simp
  qed
  then show ?thesis by (simp add: trim_def)
qed

lemma no_adjacent_sanitizeText:
  assumes "sanitizeText t = pre @ a # b # post"
  shows "\<not> (isSpace a \<and> isSpace b)"
proof
  let ?w = "replaceWhitespace (replaceDisallowed (replaceEntities t))"
  assume "isSpace a \<and> isSpace b"
  moreover obtain l r where "?w = l @ trim ?w @ r" using trim_infix by blast
  ultimately have "adjacentSpaces ((l @ pre) @ a # b # (post @ r))"
    using adjacentSpaces_append by blast
  moreover have "?w = (l @ pre) @ a # b # (post @ r)"
    using \<open>?w = l @ trim ?w @ r\<close> assms by (simp add: sanitizeText_def)
  ultimately show False using no_adjacent_replaceWhitespace [of "replaceDisallowed (replaceEntities t)"]
    by simp
qed

text \<open>
  Claim C4.  Whatever the input, every character of the sanitizer's output is in the class
  \<open>[\w\s'-]\<close>; the output holds no ampersand followed later by a semicolon, hence no
  HTML entity; no two neighbouring characters of it are both whitespace; and it neither
  starts nor ends with whitespace, so trimming it again changes nothing.
\<close>

theorem sanitizeText_output:
  "list_all isKept (sanitizeText t) \<and>
   \<not> (\<exists>pre body post. sanitizeText t = pre @ 0x26 # body @ 0x3B # post) \<and>
   \<not> (\<exists>pre a b post. sanitizeText t = pre @ a # b # post \<and> isSpace a \<and> isSpace b) \<and>
   \<not> (\<exists>c rest. sanitizeText t = c # rest \<and> isSpace c) \<and>
   \<not> (\<exists>c rest. sanitizeText t = rest @ [c] \<and> isSpace c) \<and>
   trim (sanitizeText t) = sanitizeText t"
proof (intro conjI)
  show "list_all isKept (sanitizeText t)"
    using kept_sanitizeText [of t] by (auto simp: list_all_iff)
  show "\<not> (\<exists>pre body post. sanitizeText t = pre @ 0x26 # body @ 0x3B # post)"
  proof
    assume "\<exists>pre body post. sanitizeText t = pre @ 0x26 # body @ 0x3B # post"
    then have "0x26 \<in> set (sanitizeText t)" by auto
    with kept_sanitizeText [of t] not_isKept_amp show False by auto
  qed
  show "\<not> (\<exists>pre a b post. sanitizeText t = pre @ a # b # post \<and> isSpace a \<and> isSpace b)"
    using no_adjacent_sanitizeText by blast
  show "\<not> (\<exists>c rest. sanitizeText t = c # rest \<and> isSpace c)"
    using trim_no_leading by (auto simp: sanitizeText_def)
  show "\<not> (\<exists>c rest. sanitizeText t = rest @ [c] \<and> isSpace c)"
    using trim_no_trailing by (auto simp: sanitizeText_def)
  show "trim (sanitizeText t) = sanitizeText t"
    by (simp add: sanitizeText_def trim_idem)
qed

lemma sanitizeText_example:
  "sanitizeText (str ''  Tom &amp; <b>Jerry</b>&nbsp;it's   well-known! '') =
   str ''Tom bJerrybit's well-known''"
  by (simp add: sanitizeText_def trim_def replaceDisallowed_def str_def isKept_def
      isWordChar_def isSpace_def isEntityChar_def)

theorem sanitizeText_output_witness:
  "list_all isKept (str ''Tom bJerrybit's well-known'') \<and>
   trim (str ''Tom bJerrybit's well-known'') = str ''Tom bJerrybit's well-known''"
  using sanitizeText_output [of "str ''  Tom &amp; <b>Jerry</b>&nbsp;it's   well-known! ''"]
  unfolding sanitizeText_example by blast

section \<open>The popup lifecycle\<close>

lemma wired_initial: "wired initial"
  by (simp add: wired_def initial_def)

lemma removed_fields:
  assumes "wired s"
  shows "currentPopup (removeCurrentPopup s) = None \<and> bodyPopups (removeCurrentPopup s) = [] \<and>
     keydownListeners (removeCurrentPopup s) = [] \<and> clickListeners (removeCurrentPopup s) = [] \<and>
     \<not> isPopupVisible (removeCurrentPopup s) \<and> fresh (removeCurrentPopup s) = fresh s"
proof (cases "currentPopup s")
  case None
  with assms show ?thesis by (simp add: wired_def removeCurrentPopup_def)
next
  case (Some p)
  with assms show ?thesis
    by (cases "escHandler p"; cases "clickHandler p") (simp_all add: wired_def removeCurrentPopup_def)
qed

lemma wired_remove: "wired s \<Longrightarrow> wired (removeCurrentPopup s)"
  using removed_fields [of s] by (simp add: wired_def)

lemma remove_absent: "currentPopup s = None \<Longrightarrow> removeCurrentPopup s = s"
  by (simp add: removeCurrentPopup_def)

lemma remove_idem: "removeCurrentPopup (removeCurrentPopup s) = removeCurrentPopup s"
  by (simp add: removeCurrentPopup_def split: option.splits)

lemma construct_fields:
  assumes "currentPopup s = None" "bodyPopups s = []" "keydownListeners s = []"
    "clickListeners s = []" "\<not> isPopupVisible s"
  shows "wired (snd (constructPopup pg c s))"
  using assms
  by (cases c)
     (simp_all add: constructPopup_def createPopupElement_def positionPopup_def
        setupPopupEventListeners_def wired_def)

lemma wired_construct: "wired s \<Longrightarrow> wired (snd (constructPopup pg c (removeCurrentPopup s)))"
  using removed_fields [of s] construct_fields [of "removeCurrentPopup s" pg c] by simp

lemma showLoading_cases:
  "snd (showLoadingPopup pg t s) = removeCurrentPopup s \<or>
   (\<exists>c. snd (showLoadingPopup pg t s) = snd (constructPopup pg c (removeCurrentPopup s)))"
  by (auto simp: showLoadingPopup_def Let_def)

lemma showError_cases:
  "snd (showErrorPopup pg e t s) = removeCurrentPopup s \<or>
   (\<exists>c. snd (showErrorPopup pg e t s) = snd (constructPopup pg c (removeCurrentPopup s)))"
  by (auto simp: showErrorPopup_def Let_def)

lemma showDefinition_cases:
  "snd (showDefinitionPopup pg t d s) = removeCurrentPopup s \<or>
   (\<exists>c. snd (showDefinitionPopup pg t d s) = snd (constructPopup pg c (removeCurrentPopup s)))"
proof (cases "success d")
  case True
  then show ?thesis by (auto simp: showDefinitionPopup_def Let_def)
next
  case False
  then have "showDefinitionPopup pg t d s = showErrorPopup pg (error d) t (removeCurrentPopup s)"
    by (simp add: showDefinitionPopup_def Let_def)
  then show ?thesis using showError_cases [of pg "error d" t "removeCurrentPopup s"]
    by (simp add: remove_idem)
qed

lemma onMessage_cases:
  "isShow msg \<Longrightarrow>
   snd (onMessage pg msg s) = removeCurrentPopup s \<or>
   (\<exists>c. snd (onMessage pg msg s) = snd (constructPopup pg c (removeCurrentPopup s)))"
  using showLoading_cases showError_cases showDefinition_cases
  by (cases msg) (simp_all add: onMessage_def split_beta)

lemma wired_onMessage: "wired s \<Longrightarrow> wired (snd (onMessage pg msg s))"
proof (cases "isShow msg")
  case True
  assume "wired s"
  with onMessage_cases [OF True, of pg s] wired_remove wired_construct show ?thesis by metis
next
  case False
  assume "wired s"
  with False show ?thesis by (cases msg) (simp_all add: onMessage_def)
qed

lemma wired_esc: "wired s \<Longrightarrow> wired (foldl escHandlerRun s hs)"
  by (induction hs arbitrary: s) (simp_all add: escHandlerRun_def wired_remove)

lemma wired_click: "wired s \<Longrightarrow> wired (foldl (clickHandlerRun t) s ls)"
  by (induction ls arbitrary: s) (simp_all add: clickHandlerRun_def wired_remove)

lemma wired_step: "wired s \<Longrightarrow> wired (step s ev)"
proof (cases ev)
  case (Message pg msg)
  assume "wired s"
  with Message show ?thesis by (simp add: step_def wired_onMessage)
next
  case (KeyDown key)
  assume "wired s"
  with KeyDown show ?thesis by (simp add: step_def wired_esc)
next
  case (Click t)
  assume "wired s"
  with Click show ?thesis by (cases t) (simp_all add: step_def wired_click wired_remove)
next
  case BeforeUnload
  assume "wired s"
  with BeforeUnload show ?thesis by (simp add: step_def wired_remove)
qed

lemma wired_foldl: "wired s \<Longrightarrow> wired (foldl step s evs)"
  by (induction evs arbitrary: s) (simp_all add: wired_step)

lemma wired_run: "wired (run evs)"
  unfolding run_def by (rule wired_foldl [OF wired_initial])

lemma wired_body: "wired s \<Longrightarrow> length (bodyPopups s) \<le> 1"
  by (cases "currentPopup s") (auto simp: wired_def split: option.splits)

lemma run_loading:
  "bodyPopups (run [Message lightPage (ShowLoading (str ''cat''))]) = [0] \<and>
   keydownListeners (run [Message lightPage (ShowLoading (str ''cat''))]) = [1] \<and>
   clickListeners (run [Message lightPage (ShowLoading (str ''cat''))]) = [(2, 0)]"
  by (simp add: run_def step_def onMessage_def showLoadingPopup_def constructPopup_def
      createPopupElement_def positionPopup_def setupPopupEventListeners_def
      removeCurrentPopup_def initial_def lightPage_def)

lemma run_loading_definition:
  "bodyPopups (run [Message lightPage (ShowLoading (str ''cat'')),
      Message lightPage (ShowDefinition (str ''cat'') (Success catEntry (str ''cat'')))]) = [3]"
  by (simp add: run_def step_def onMessage_def showLoadingPopup_def showDefinitionPopup_def
      constructPopup_def createPopupElement_def positionPopup_def setupPopupEventListeners_def
      removeCurrentPopup_def initial_def lightPage_def)

text \<open>
  Claim C5.  After any sequence of events of the page, among them the messages
  \<open>showLoading\<close>, \<open>showDefinition\<close> and \<open>showError\<close> in any order and with any
  content, at most one popup element is a child of the body.  Every handler of a show
  message first tears the current popup down: in the state it then builds on, no popup is
  in the body and no listener of a popup is registered on the document, and the handler
  ends either in that state or in the one that building a new popup on it gives.
\<close>

theorem at_most_one_popup:
  "length (bodyPopups (run evs)) \<le> 1 \<and>
   (isShow msg \<longrightarrow>
      bodyPopups (removeCurrentPopup (run evs)) = [] \<and>
      keydownListeners (removeCurrentPopup (run evs)) = [] \<and>
      clickListeners (removeCurrentPopup (run evs)) = [] \<and>
      (snd (onMessage pg msg (run evs)) = removeCurrentPopup (run evs) \<or>
       (\<exists>c. snd (onMessage pg msg (run evs)) =
              snd (constructPopup pg c (removeCurrentPopup (run evs))))))"
  using wired_body [OF wired_run, of evs] removed_fields [OF wired_run, of evs]
    onMessage_cases [of msg pg "run evs"]
  by simp

theorem at_most_one_popup_witness:
  "isShow (ShowError (str ''Failed'')) \<and>
   bodyPopups (run [Message lightPage (ShowLoading (str ''cat'')),
      Message lightPage (ShowDefinition (str ''cat'') (Success catEntry (str ''cat'')))]) = [3] \<and>
   bodyPopups (removeCurrentPopup (run [Message lightPage (ShowLoading (str ''cat'')),
      Message lightPage (ShowDefinition (str ''cat'') (Success catEntry (str ''cat'')))])) = []"
  using at_most_one_popup [of "[Message lightPage (ShowLoading (str ''cat'')),
      Message lightPage (ShowDefinition (str ''cat'') (Success catEntry (str ''cat'')))]"
      "ShowError (str ''Failed'')" lightPage] run_loading_definition
  by simp

text \<open>
  Claim C9.  The teardown routine has no result but the new state and cannot fail.  Run
  without a current popup it returns the state it was given: the three variables, the
  children of the body and the registered listeners are all unchanged.  Run a second time
  after a teardown it changes nothing either.
\<close>

theorem removeCurrentPopup_idempotent:
  "(currentPopup s = None \<longrightarrow> removeCurrentPopup s = s) \<and>
   currentPopup (removeCurrentPopup s) = None \<and>
   removeCurrentPopup (removeCurrentPopup s) = removeCurrentPopup s"
  by (simp add: removeCurrentPopup_def split: option.splits)

theorem removeCurrentPopup_idempotent_witness:
  "currentPopup initial = None \<and> removeCurrentPopup initial = initial \<and>
   removeCurrentPopup (removeCurrentPopup (run [Message lightPage (ShowLoading (str ''cat''))])) =
     removeCurrentPopup (run [Message lightPage (ShowLoading (str ''cat''))])"
  using removeCurrentPopup_idempotent [of initial]
    removeCurrentPopup_idempotent [of "run [Message lightPage (ShowLoading (str ''cat''))]"]
  by (simp add: initial_def)

text \<open>
  Claim C10.  When the selection of the page has no range, the handler of
  \<open>showLoading\<close>, of \<open>showDefinition\<close> with a success envelope and of \<open>showError\<close>
  does the teardown and nothing else: the listener answers with success, the state is the
  torn-down one, in which no popup is current or in the body and no listener is
  registered, and no new element or closure was created.
\<close>

theorem no_range_no_popup:
  assumes "rangeCount pg = 0"
    and "msg = ShowLoading t \<or> msg = ShowDefinition t (Success d w) \<or> msg = ShowError e"
  shows "onMessage pg msg (run evs) = (ReplySuccess, removeCurrentPopup (run evs)) \<and>
    currentPopup (removeCurrentPopup (run evs)) = None \<and>
    bodyPopups (removeCurrentPopup (run evs)) = [] \<and>
    keydownListeners (removeCurrentPopup (run evs)) = [] \<and>
    clickListeners (removeCurrentPopup (run evs)) = [] \<and>
    fresh (removeCurrentPopup (run evs)) = fresh (run evs)"
proof -
  have "onMessage pg msg (run evs) = (ReplySuccess, removeCurrentPopup (run evs))"
    using assms
    by (auto simp: onMessage_def showLoadingPopup_def showDefinitionPopup_def
        showErrorPopup_def Let_def)
  with removed_fields [OF wired_run, of evs] show ?thesis by simp
qed

theorem no_range_no_popup_witness:
  "rangeCount noSelectionPage = 0 \<and>
   bodyPopups (run [Message lightPage (ShowLoading (str ''cat''))]) = [0] \<and>
   onMessage noSelectionPage (ShowLoading (str ''dog''))
       (run [Message lightPage (ShowLoading (str ''cat''))]) =
     (ReplySuccess, removeCurrentPopup (run [Message lightPage (ShowLoading (str ''cat''))])) \<and>
   bodyPopups (removeCurrentPopup (run [Message lightPage (ShowLoading (str ''cat''))])) = []"
proof -
  have r: "rangeCount noSelectionPage = 0"
    by (simp add: noSelectionPage_def)
  show ?thesis
    using r run_loading
      no_range_no_popup [OF r, of "ShowLoading (str ''dog'')" "str ''dog''" _ _ _
        "[Message lightPage (ShowLoading (str ''cat''))]"]
    by simp
qed

section \<open>The definition fetcher\<close>

lemma str_timeout_distinct:
  "str ''URI malformed'' \<noteq> str ''API timeout''"
  "str ''API returned '' @ rest \<noteq> str ''API timeout''"
  by (simp_all add: str_def)

lemma race_timeout:
  "timeoutFirst nw \<Longrightarrow> race nw = Rejected (JsError ''Error'' (str ''API timeout''))"
  by (simp add: race_def)

lemma race_api: "\<not> timeoutFirst nw \<Longrightarrow> race nw = apiPromise nw"
  by (simp add: race_def)

text \<open>
  Claim C7.  Whatever value the awaited race resolves with: if it is an array with at
  least one element, the fetcher returns the success envelope with the looked-up word and
  the first element of the array, whatever the later elements are; if it is the empty
  array or no array at all, it returns the failure envelope with the reason
  \<open>No definition found\<close>.
\<close>

theorem fetch_first_element:
  assumes "\<not> hasLoneSurrogate w" and "race nw = Fulfilled result"
  shows "(\<forall>first rest. result = JArray (first # rest) \<longrightarrow>
            fetchDictionaryDefinition nw w = Success first w) \<and>
         (result = JArray [] \<or> (\<forall>elems. result \<noteq> JArray elems) \<longrightarrow>
            fetchDictionaryDefinition nw w = Failure (str ''No definition found'') w)"
proof -
  from assms have "fetchDictionaryDefinition nw w = processResult w result"
    by (simp add: fetchDictionaryDefinition_def)
  then show ?thesis by (cases "(w, result)" rule: processResult.cases) auto
qed

lemma race_answered:
  "race (answered 200 reason (Fulfilled v)) = Fulfilled v"
  by (simp add: race_def timeoutFirst_def apiPromise_def answered_def ok_def API_TIMEOUT_def)

lemma cat_wellformed: "\<not> hasLoneSurrogate (str ''cat'')"
  by (simp add: str_def isHighSurrogate_def isLowSurrogate_def)

theorem fetch_first_element_witness:
  "fetchDictionaryDefinition (answered 200 (str ''OK'') (Fulfilled (JArray [catEntry, JNull])))
     (str ''cat'') = Success catEntry (str ''cat'') \<and>
   fetchDictionaryDefinition (answered 200 (str ''OK'') (Fulfilled (JArray [])))
     (str ''cat'') = Failure (str ''No definition found'') (str ''cat'') \<and>
   fetchDictionaryDefinition (answered 200 (str ''OK'') (Fulfilled (JObject [])))
     (str ''cat'') = Failure (str ''No definition found'') (str ''cat'')"
  using fetch_first_element [OF cat_wellformed race_answered [of "str ''OK''" "JArray [catEntry, JNull]"]]
    fetch_first_element [OF cat_wellformed race_answered [of "str ''OK''" "JArray []"]]
    fetch_first_element [OF cat_wellformed race_answered [of "str ''OK''" "JObject []"]]
  by simp

text \<open>
  Claim C2 fails as it is stated: for a response with a status outside 200..299 the
  fetcher throws an error that carries the status and the status text, but its \<open>catch\<close>
  block only logs that error and returns the reason \<open>Failed to fetch definition\<close>.
\<close>

theorem fetch_status_counterexample:
  "fetchDictionaryDefinition (answered 404 (str ''Not Found'') (Fulfilled JNull)) (str ''zzzxxqq'') =
     Failure (str ''Failed to fetch definition'') (str ''zzzxxqq'') \<and>
   \<not> ok \<lparr>status = 404, statusText = str ''Not Found'', jsonBody = Fulfilled JNull\<rparr> \<and>
   str ''Failed to fetch definition'' \<noteq> str ''404 Not Found''"
  by (simp add: fetchDictionaryDefinition_def fetchCatch_def race_def timeoutFirst_def
      apiPromise_def answered_def ok_def API_TIMEOUT_def str_def isHighSurrogate_def
      isLowSurrogate_def)

text \<open>
  Claim C2, amended.  The fetcher always returns an envelope for the word it was given.
  When the timeout settles first, the reason of the failure is \<open>Request timed out\<close>.
  When the response has a status outside 200..299, the reason is
  \<open>Failed to fetch definition\<close>.  Any other thrown error, that is a rejected request,
  a body that fails to parse or a word that cannot be encoded, gives
  \<open>Failed to fetch definition\<close> too, unless its message is the text \<open>API timeout\<close>.
\<close>

theorem fetch_failure_reasons:
  "word (fetchDictionaryDefinition nw w) = w \<and>
   (\<not> hasLoneSurrogate w \<and> timeoutFirst nw \<longrightarrow>
      fetchDictionaryDefinition nw w = Failure (str ''Request timed out'') w) \<and>
   (\<not> hasLoneSurrogate w \<and> \<not> timeoutFirst nw \<and> fetchResult nw = Fulfilled r \<and> \<not> ok r \<longrightarrow>
      fetchDictionaryDefinition nw w = Failure (str ''Failed to fetch definition'') w) \<and>
   (\<not> hasLoneSurrogate w \<and> \<not> timeoutFirst nw \<and> message e \<noteq> str ''API timeout'' \<and>
    (fetchResult nw = Rejected e \<or>
     (fetchResult nw = Fulfilled r \<and> ok r \<and> jsonBody r = Rejected e)) \<longrightarrow>
      fetchDictionaryDefinition nw w = Failure (str ''Failed to fetch definition'') w) \<and>
   (hasLoneSurrogate w \<longrightarrow>
      fetchDictionaryDefinition nw w = Failure (str ''Failed to fetch definition'') w)"
proof (intro conjI impI)
  show "word (fetchDictionaryDefinition nw w) = w"
  proof (cases "race nw")
    case (Fulfilled result)
    then show ?thesis
      by (cases "(w, result)" rule: processResult.cases)
         (simp_all add: fetchDictionaryDefinition_def fetchCatch_def)
  next
    case (Rejected x)
    then show ?thesis by (simp add: fetchDictionaryDefinition_def fetchCatch_def)
  qed
next
  assume "\<not> hasLoneSurrogate w \<and> timeoutFirst nw"
  then show "fetchDictionaryDefinition nw w = Failure (str ''Request timed out'') w"
    by (simp add: fetchDictionaryDefinition_def race_timeout fetchCatch_def)
next
  assume "\<not> hasLoneSurrogate w \<and> \<not> timeoutFirst nw \<and> fetchResult nw = Fulfilled r \<and> \<not> ok r"
  then show "fetchDictionaryDefinition nw w = Failure (str ''Failed to fetch definition'') w"
    by (simp add: fetchDictionaryDefinition_def race_api apiPromise_def fetchCatch_def
        str_timeout_distinct)
next
  assume "\<not> hasLoneSurrogate w \<and> \<not> timeoutFirst nw \<and> message e \<noteq> str ''API timeout'' \<and>
    (fetchResult nw = Rejected e \<or>
     (fetchResult nw = Fulfilled r \<and> ok r \<and> jsonBody r = Rejected e))"
  then show "fetchDictionaryDefinition nw w = Failure (str ''Failed to fetch definition'') w"
    by (auto simp: fetchDictionaryDefinition_def race_api apiPromise_def fetchCatch_def)
next
  assume "hasLoneSurrogate w"
  then show "fetchDictionaryDefinition nw w = Failure (str ''Failed to fetch definition'') w"
    by (simp add: fetchDictionaryDefinition_def fetchCatch_def str_timeout_distinct)
qed

theorem fetch_failure_reasons_witness:
  "fetchDictionaryDefinition
     \<lparr>fetchResult = Rejected (JsError ''TypeError'' (str ''Failed to fetch'')),
      settlesAfter = None\<rparr> (str ''cat'') = Failure (str ''Request timed out'') (str ''cat'') \<and>
   fetchDictionaryDefinition (answered 404 (str ''Not Found'') (Fulfilled JNull)) (str ''cat'') =
     Failure (str ''Failed to fetch definition'') (str ''cat'') \<and>
   fetchDictionaryDefinition
     \<lparr>fetchResult = Rejected (JsError ''TypeError'' (str ''Failed to fetch'')),
      settlesAfter = Some 30\<rparr> (str ''cat'') =
     Failure (str ''Failed to fetch definition'') (str ''cat'')"
  using
    fetch_failure_reasons [of
      "\<lparr>fetchResult = Rejected (JsError ''TypeError'' (str ''Failed to fetch'')),
        settlesAfter = None\<rparr>" "str ''cat''"]
    fetch_failure_reasons [of
      "answered 404 (str ''Not Found'') (Fulfilled JNull)" "str ''cat''"
      "\<lparr>status = 404, statusText = str ''Not Found'', jsonBody = Fulfilled JNull\<rparr>"]
    fetch_failure_reasons [of
      "\<lparr>fetchResult = Rejected (JsError ''TypeError'' (str ''Failed to fetch'')),
        settlesAfter = Some 30\<rparr>" "str ''cat''" _
      "JsError ''TypeError'' (str ''Failed to fetch'')"]
    cat_wellformed
  by (simp add: timeoutFirst_def answered_def ok_def API_TIMEOUT_def str_def)

section \<open>The message router\<close>

lemma notReady_notInitialized: "notInitialized notReady"
  by (simp add: notInitialized_def notReady_def str_def)

text \<open>
  Claim C6 fails as it is stated: when the first send fails because the content script is
  not there and the injection of the script fails too, the router neither waits nor sends
  again; it logs the error of the injection and returns \<open>false\<close> after one send.
\<close>

theorem router_retry_counterexample:
  "firstSend restrictedPage = Rejected notReady \<and> notInitialized notReady \<and>
   sendMessageToContentScript restrictedPage 7 (ShowLoading (str ''cat'')) =
     (False, [SendMessage 7 (ShowLoading (str ''cat'')), ExecuteScript 7 ''content.js'',
              LogError (JsError ''Error'' (str ''Cannot access a chrome:// URL''))]) \<and>
   sends (snd (sendMessageToContentScript restrictedPage 7 (ShowLoading (str ''cat'')))) = 1"
  by (simp add: sendMessageToContentScript_def restrictedPage_def notReady_notInitialized
      sends_def)

text \<open>
  Claim C6, amended.  Every delivery starts with a direct send, and a send that succeeds
  ends it with \<open>true\<close>.  The router injects the content script if and only if that
  send failed with an error that says the receiving side is not there; any other error
  of the first send is logged and the router returns \<open>false\<close>.  If the injection
  fails, its error is logged and the router returns \<open>false\<close> without waiting or
  sending again.  If and only if the injection succeeded, the router waits 100 ms and
  sends the message once more: it returns \<open>true\<close> if that send succeeds, and if it
  fails its error is logged and the router returns \<open>false\<close>.  So a delivery makes
  one send or two, never more, and in every case it returns and does not throw.
\<close>

theorem router_single_retry:
  "(\<exists>rest. snd (sendMessageToContentScript d tabId msg) = SendMessage tabId msg # rest) \<and>
   (ExecuteScript tabId ''content.js'' \<in> set (snd (sendMessageToContentScript d tabId msg))
      \<longleftrightarrow> (\<exists>e. firstSend d = Rejected e \<and> notInitialized e)) \<and>
   (Wait 100 \<in> set (snd (sendMessageToContentScript d tabId msg))
      \<longleftrightarrow> (\<exists>e. firstSend d = Rejected e \<and> notInitialized e) \<and> injection d = Fulfilled ()) \<and>
   sends (snd (sendMessageToContentScript d tabId msg)) =
     (if (\<exists>e. firstSend d = Rejected e \<and> notInitialized e) \<and> injection d = Fulfilled ()
      then 2 else 1) \<and>
   sends (snd (sendMessageToContentScript d tabId msg)) \<le> 2 \<and>
   (fst (sendMessageToContentScript d tabId msg) \<longleftrightarrow>
      last (snd (sendMessageToContentScript d tabId msg)) = SendMessage tabId msg) \<and>
   (\<not> fst (sendMessageToContentScript d tabId msg) \<longleftrightarrow>
      (\<exists>e. last (snd (sendMessageToContentScript d tabId msg)) = LogError e)) \<and>
   (firstSend d = Fulfilled () \<longrightarrow>
      sendMessageToContentScript d tabId msg = (True, [SendMessage tabId msg])) \<and>
   (\<forall>e. firstSend d = Rejected e \<and> \<not> notInitialized e \<longrightarrow>
      sendMessageToContentScript d tabId msg = (False, [SendMessage tabId msg, LogError e])) \<and>
   (\<forall>e r. firstSend d = Rejected e \<and> notInitialized e \<and> injection d = Rejected r \<longrightarrow>
      sendMessageToContentScript d tabId msg =
        (False, [SendMessage tabId msg, ExecuteScript tabId ''content.js'', LogError r])) \<and>
   (\<forall>e. firstSend d = Rejected e \<and> notInitialized e \<and> injection d = Fulfilled () \<and>
        secondSend d = Fulfilled () \<longrightarrow>
      sendMessageToContentScript d tabId msg =
        (True, [SendMessage tabId msg, ExecuteScript tabId ''content.js'', Wait 100,
                SendMessage tabId msg])) \<and>
   (\<forall>e r. firstSend d = Rejected e \<and> notInitialized e \<and> injection d = Fulfilled () \<and>
        secondSend d = Rejected r \<longrightarrow>
      sendMessageToContentScript d tabId msg =
        (False, [SendMessage tabId msg, ExecuteScript tabId ''content.js'', Wait 100,
                 SendMessage tabId msg, LogError r]))"
  by (cases "firstSend d"; cases "injection d"; cases "secondSend d")
     (simp_all add: sendMessageToContentScript_def sends_def)

theorem router_single_retry_witness:
  "sendMessageToContentScript lateScript 7 (ShowLoading (str ''cat'')) =
     (True, [SendMessage 7 (ShowLoading (str ''cat'')), ExecuteScript 7 ''content.js'',
             Wait 100, SendMessage 7 (ShowLoading (str ''cat''))]) \<and>
   sendMessageToContentScript closedTab 7 (ShowLoading (str ''cat'')) =
     (False, [SendMessage 7 (ShowLoading (str ''cat'')), ExecuteScript 7 ''content.js'',
              Wait 100, SendMessage 7 (ShowLoading (str ''cat'')),
              LogError (JsError ''Error'' (str ''No tab with id: 7.''))]) \<and>
   sendMessageToContentScript restrictedPage 7 (ShowLoading (str ''cat'')) =
     (False, [SendMessage 7 (ShowLoading (str ''cat'')), ExecuteScript 7 ''content.js'',
              LogError (JsError ''Error'' (str ''Cannot access a chrome:// URL''))]) \<and>
   sendMessageToContentScript otherFailure 7 (ShowLoading (str ''cat'')) =
     (False, [SendMessage 7 (ShowLoading (str ''cat'')),
              LogError (JsError ''Error'' (str ''The tab was closed.''))]) \<and>
   sends (snd (sendMessageToContentScript closedTab 7 (ShowLoading (str ''cat'')))) = 2 \<and>
   sends (snd (sendMessageToContentScript restrictedPage 7 (ShowLoading (str ''cat'')))) = 1"
proof -
  have other: "\<not> notInitialized (JsError ''Error'' (str ''The tab was closed.''))"
    by (simp add: notInitialized_def str_def)
  have late: "sendMessageToContentScript lateScript 7 (ShowLoading (str ''cat'')) =
     (True, [SendMessage 7 (ShowLoading (str ''cat'')), ExecuteScript 7 ''content.js'',
             Wait 100, SendMessage 7 (ShowLoading (str ''cat''))])"
    using router_single_retry [of lateScript 7 "ShowLoading (str ''cat'')"]
      notReady_notInitialized
    by (simp add: lateScript_def)
  have closed: "sendMessageToContentScript closedTab 7 (ShowLoading (str ''cat'')) =
     (False, [SendMessage 7 (ShowLoading (str ''cat'')), ExecuteScript 7 ''content.js'',
              Wait 100, SendMessage 7 (ShowLoading (str ''cat'')),
              LogError (JsError ''Error'' (str ''No tab with id: 7.''))])"
    using router_single_retry [of closedTab 7 "ShowLoading (str ''cat'')"]
      notReady_notInitialized
    by (simp add: closedTab_def)
  have restricted: "sendMessageToContentScript restrictedPage 7 (ShowLoading (str ''cat'')) =
     (False, [SendMessage 7 (ShowLoading (str ''cat'')), ExecuteScript 7 ''content.js'',
              LogError (JsError ''Error'' (str ''Cannot access a chrome:// URL''))])"
    using router_single_retry [of restrictedPage 7 "ShowLoading (str ''cat'')"]
      notReady_notInitialized
    by (simp add: restrictedPage_def)
  have failure: "sendMessageToContentScript otherFailure 7 (ShowLoading (str ''cat'')) =
     (False, [SendMessage 7 (ShowLoading (str ''cat'')),
              LogError (JsError ''Error'' (str ''The tab was closed.''))])"
    using router_single_retry [of otherFailure 7 "ShowLoading (str ''cat'')"] other
    by (simp add: otherFailure_def)
  show ?thesis
    unfolding late closed restricted failure by (simp add: sends_def)
qed

section \<open>The shortcut handler\<close>

text \<open>
  Claim C1 is what the handler is written to do, and what it fails to do: for a selection
  of 61 characters the assignment of the truncated text to the constant \<open>selectedText\<close>
  throws, the sanitizer is never called, no lookup is made, and the page is sent the
  error message instead.
\<close>

theorem long_selection_throws:
  "length (str ''the quick brown fox jumps over the lazy dog and keeps running'') = 61 \<and>
   onCommand (selecting (str ''the quick brown fox jumps over the lazy dog and keeps running''))
       (str ''lookup-word'') =
     [Deliver 7 (ShowError (str ''Failed to fetch definition. Please try again.''))]"
  by (simp add: onCommand_def lookup_def getSelectedText_def selecting_def trim_def str_def
      isSpace_def)

lemma long_selection_never_sanitized:
  "length (getSelectedText b) > 50 \<Longrightarrow> Sanitize t \<notin> set (onCommand b command)"
  by (auto simp: onCommand_def lookup_def Let_def split: settled.splits option.splits)

lemma short_selection_looked_up:
  "onCommand (selecting (str '' cat! '')) (str ''lookup-word'') =
     [Sanitize (str ''cat!''), Deliver 7 (ShowLoading (str ''cat'')), Fetch (str ''cat''),
      Deliver 7 (ShowDefinition (str ''cat'') (Success catEntry (str ''cat'')))]"
  by (simp add: onCommand_def lookup_def getSelectedText_def selecting_def trim_def str_def
      isSpace_def sanitizeText_def replaceDisallowed_def isKept_def isWordChar_def Let_def
      fetchDictionaryDefinition_def isHighSurrogate_def isLowSurrogate_def race_def
      timeoutFirst_def apiPromise_def answered_def ok_def API_TIMEOUT_def)

section \<open>Theme detection\<close>

lemma digit_char:
  assumes "n < 10"
  shows "isDigit (0x30 + of_nat n) \<and> unat ((0x30 + of_nat n :: jschar) - 0x30) = n"
proof -
  from assms have "n \<in> {0, 1, 2, 3, 4, 5, 6, 7, 8, 9}"
    by simp arith
  then show ?thesis by (auto simp: isDigit_def)
qed

lemma showNat_digits: "showNat n \<noteq> [] \<and> list_all isDigit (showNat n)"
proof (induction n rule: showNat.induct)
  case (1 n)
  show ?case
  proof (cases "n < 10")
    case True
    then show ?thesis using digit_char [of n] by (subst (1 2) showNat.simps) simp
  next
    case False
    have "n mod 10 < 10" by simp
    with 1 False digit_char [of "n mod 10"] show ?thesis
      by (subst (1 2) showNat.simps) simp
  qed
qed

lemma digitsValue_snoc: "digitsValue (ds @ [d]) = 10 * digitsValue ds + unat (d - 0x30)"
  by (simp add: digitsValue_def)

lemma digitsValue_showNat: "digitsValue (showNat n) = n"
proof (induction n rule: showNat.induct)
  case (1 n)
  show ?case
  proof (cases "n < 10")
    case True
    then show ?thesis using digit_char [of n]
      by (subst showNat.simps) (simp add: digitsValue_def)
  next
    case False
    have "n mod 10 < 10" by simp
    with 1 False digit_char [of "n mod 10"] show ?thesis
      by (subst showNat.simps) (simp add: digitsValue_snoc)
  qed
qed

lemma component_showNat:
  assumes "\<not> isDigit sep"
  shows "component sep spaces (showNat n @ sep # rest) =
    Some (showNat n, if spaces then dropWhile isSpace rest else rest)"
proof -
  have d: "\<forall>x\<in>set (showNat n). isDigit x"
    using showNat_digits [of n] by (simp add: list_all_iff)
  have "takeWhile isDigit (showNat n @ sep # rest) = showNat n"
    using d assms by (simp add: takeWhile_append2)
  moreover have "dropWhile isDigit (showNat n @ sep # rest) = sep # rest"
    using d assms by (simp add: dropWhile_append2)
  ultimately show ?thesis using showNat_digits [of n] by (simp add: component_def)
qed

lemma isSpace_space: "isSpace 0x20"
  by (simp add: isSpace_def)

lemma dropWhile_space_showNat: "dropWhile isSpace (showNat n @ rest) = showNat n @ rest"
proof -
  obtain c cs where c: "showNat n = c # cs" "isDigit c"
    using showNat_digits [of n] by (cases "showNat n") auto
  then have "\<not> isSpace c" by (auto simp: isDigit_def isSpace_def word_le_nat_alt)
  with c show ?thesis by simp
qed

lemma rgbMatch_rgbText: "rgbMatch (rgbText r g b) = Some (r, g, b)"
proof -
  have sep: "\<not> isDigit 0x2C" "\<not> isDigit 0x29" by (simp_all add: isDigit_def)
  have "rgbAt (rgbText r g b) = Some (r, g, b)"
    by (simp add: rgbText_def rgbAt_def str_def component_showNat [OF sep(1)]
        component_showNat [OF sep(2)] dropWhile_space_showNat isSpace_space
        digitsValue_showNat)
  moreover have "rgbText r g b = 0x72 # tl (rgbText r g b)"
    by (simp add: rgbText_def str_def)
  ultimately show ?thesis by (metis option.simps(5) rgbMatch.simps(2))
qed

lemma luma_bounds:
  assumes "r \<le> 255" "g \<le> 255" "b \<le> 255"
  shows "0 \<le> luma r g b \<and> luma r g b \<le> 255"
proof -
  have "real r \<le> 255" "real g \<le> 255" "real b \<le> 255"
    using assms by simp_all
  then show ?thesis by (simp add: luma_def)
qed

text \<open>
  Claim C8.  The brightness of a black background is 0 and that of a white one is 255.
  For a background colour in which no \<open>rgb(r, g, b)\<close> is found the brightness is 255.
  For a background \<open>rgb(r, g, b)\<close> with components up to 255 the brightness is the
  weighted mean of the components, between 0 and 255.  Whenever the brightness is below
  128, the page counts as dark.
\<close>

theorem brightness_and_dark_theme:
  "luma 0 0 0 = 0 \<and> luma 255 255 255 = 255 \<and>
   (rgbMatch (backgroundColor pg) = None \<longrightarrow> brightness (detectThemeAndContrast pg) = 255) \<and>
   (r \<le> 255 \<and> g \<le> 255 \<and> b \<le> 255 \<and> backgroundColor pg = rgbText r g b \<longrightarrow>
      brightness (detectThemeAndContrast pg) = luma r g b \<and>
      0 \<le> luma r g b \<and> luma r g b \<le> 255) \<and>
   (brightness (detectThemeAndContrast pg) < 128 \<longrightarrow> isDark (detectThemeAndContrast pg))"
proof (intro conjI impI)
  show "luma 0 0 0 = 0" "luma 255 255 255 = 255"
    by (simp_all add: luma_def)
  show "brightness (detectThemeAndContrast pg) = 255" if "rgbMatch (backgroundColor pg) = None"
    using that by (simp add: detectThemeAndContrast_def Let_def)
  show "brightness (detectThemeAndContrast pg) = luma r g b"
    if "r \<le> 255 \<and> g \<le> 255 \<and> b \<le> 255 \<and> backgroundColor pg = rgbText r g b"
    using that by (simp add: detectThemeAndContrast_def Let_def rgbMatch_rgbText)
  show "0 \<le> luma r g b" "luma r g b \<le> 255"
    if "r \<le> 255 \<and> g \<le> 255 \<and> b \<le> 255 \<and> backgroundColor pg = rgbText r g b"
    using that luma_bounds [of r g b] by simp_all
  show "isDark (detectThemeAndContrast pg)" if "brightness (detectThemeAndContrast pg) < 128"
    using that by (simp add: detectThemeAndContrast_def Let_def)
qed

lemma rgbText_examples:
  "rgbText 0 0 0 = str ''rgb(0, 0, 0)''"
  "rgbText 255 255 255 = str ''rgb(255, 255, 255)''"
  "rgbText 40 44 52 = str ''rgb(40, 44, 52)''"
  by (simp_all add: rgbText_def showNat.simps str_def)

lemma rgbMatch_transparent: "rgbMatch (str ''rgba(0, 0, 0, 0)'') = None"
  by (simp add: str_def rgbAt_def component_def isDigit_def)

theorem brightness_and_dark_theme_witness:
  "brightness (detectThemeAndContrast darkPage) = 43716 / 1000 \<and>
   isDark (detectThemeAndContrast darkPage) \<and>
   brightness (detectThemeAndContrast transparentPage) = 255 \<and>
   brightness (detectThemeAndContrast lightPage) = 255"
proof -
  have d: "backgroundColor darkPage = rgbText 40 44 52"
    by (simp add: darkPage_def rgbText_examples)
  have t: "rgbMatch (backgroundColor transparentPage) = None"
    by (simp add: transparentPage_def rgbMatch_transparent)
  have l: "backgroundColor lightPage = rgbText 255 255 255"
    by (simp add: lightPage_def rgbText_examples)
  have bd: "brightness (detectThemeAndContrast darkPage) = 43716 / 1000"
    using brightness_and_dark_theme [of darkPage 40 44 52] d by (simp add: luma_def)
  moreover have "isDark (detectThemeAndContrast darkPage)"
    using brightness_and_dark_theme [of darkPage] bd by simp
  moreover have "brightness (detectThemeAndContrast transparentPage) = 255"
    using brightness_and_dark_theme [of transparentPage] t by simp
  moreover have "brightness (detectThemeAndContrast lightPage) = 255"
    using brightness_and_dark_theme [of lightPage 255 255 255] l by (simp add: luma_def)
  ultimately show ?thesis by simp
qed

section \<open>Placement\<close>

lemma placement_above:
  assumes "spaceAbove pg \<ge> popupHeight pg + margin"
  shows "positionAbove pg \<and>
    finalTop pg = sint (rectTop (rangeRect pg)) + scrollTop pg - popupHeight pg - margin"
  using assms by (simp add: positionAbove_def finalTop_def vertical_def)

lemma placement_below:
  assumes "\<not> spaceAbove pg \<ge> popupHeight pg + margin"
    and "spaceBelow pg \<ge> popupHeight pg + margin"
  shows "\<not> positionAbove pg \<and>
    finalTop pg = sint (rectBottom (rangeRect pg)) + scrollTop pg + margin"
  using assms by (simp add: positionAbove_def finalTop_def vertical_def)

lemma fallback_side:
  assumes "\<not> spaceAbove pg \<ge> popupHeight pg + margin"
    and "\<not> spaceBelow pg \<ge> popupHeight pg + margin"
  shows "positionAbove pg \<longleftrightarrow> spaceAbove pg > spaceBelow pg"
  using assms by (simp add: positionAbove_def vertical_def)

text \<open>
  Without room on either side, a popup that goes below ends 10 px above the bottom edge
  of the viewport, wherever the page is scrolled to: the bound of that branch is the
  viewport's height plus the scroll offset.
\<close>

lemma fallback_below_inset:
  assumes "\<not> spaceAbove pg \<ge> popupHeight pg + margin"
    and "\<not> spaceBelow pg \<ge> popupHeight pg + margin"
    and "\<not> spaceAbove pg > spaceBelow pg"
  shows "finalTop pg + popupHeight pg = sint (innerHeight pg) + scrollTop pg - 10"
  using assms by (simp add: finalTop_def vertical_def spaceBelow_def margin_def)

text \<open>
  A popup that goes above is bounded by the page coordinate 10 instead.  On a page that
  is not scrolled this is 10 px below the top edge of the viewport; on every page that
  is scrolled down the popup starts less than 10 px below that edge, or above it.
\<close>

lemma fallback_above_unscrolled:
  assumes "\<not> spaceAbove pg \<ge> popupHeight pg + margin"
    and "\<not> spaceBelow pg \<ge> popupHeight pg + margin"
    and "spaceAbove pg > spaceBelow pg"
    and "scrollTop pg = 0"
  shows "finalTop pg = 10"
  using assms by (simp add: finalTop_def vertical_def spaceAbove_def margin_def)

lemma fallback_above_scrolled:
  assumes "\<not> spaceAbove pg \<ge> popupHeight pg + margin"
    and "\<not> spaceBelow pg \<ge> popupHeight pg + margin"
    and "spaceAbove pg > spaceBelow pg"
    and "scrollTop pg > 0"
  shows "finalTop pg < scrollTop pg + 10"
  using assms by (simp add: finalTop_def vertical_def spaceAbove_def margin_def)

text \<open>
  Horizontally the code computes the clamp of the centred position into the interval
  from 10 to the viewport's width minus the popup's width minus 10, whenever that
  interval is not empty.
\<close>

lemma finalLeft_clamp:
  assumes "minLeft \<le> maxLeft pg"
  shows "finalLeft pg = max minLeft (min (maxLeft pg) (centredLeft pg))"
  using assms by (simp add: finalLeft_def max_def min_def)

text \<open>
  Claim C3 asks for a popup that is kept 10 px inside the top edge of the viewport when
  neither side has room and the upper side has more.  On a page scrolled down by 1000 px,
  with a viewport 300 px high, a selection from 150 to 170 px of it and a popup 200 px
  high, neither side has room (150 and 130 px against 205) and the upper side has more.
  The code puts the top of the popup at 945 px of the page.  The top edge of the viewport
  is at 1000 px of the page, so the popup starts 55 px above it, where the claim asks
  for 1010 px or more.
\<close>

theorem above_fallback_leaves_viewport:
  "\<not> spaceAbove scrolledPage \<ge> popupHeight scrolledPage + margin \<and>
   \<not> spaceBelow scrolledPage \<ge> popupHeight scrolledPage + margin \<and>
   spaceAbove scrolledPage > spaceBelow scrolledPage \<and>
   positionAbove scrolledPage \<and>
   scrollTop scrolledPage = 1000 \<and>
   finalTop scrolledPage = 945 \<and>
   \<not> scrollTop scrolledPage + 10 \<le> finalTop scrolledPage \<and>
   finalLeft scrolledPage = 370"
  by (simp add: scrolledPage_def spaceAbove_def spaceBelow_def popupHeight_def
      popupWidth_def viewportWidth_def margin_def positionAbove_def finalTop_def
      vertical_def scrollTop_def orElse_def finalLeft_def centredLeft_def scrollLeft_def
      minLeft_def maxLeft_def)

text \<open>
  The numbers above are the ones \<open>positionPopup\<close> writes into the style of the
  popup: the loading popup of the scrolled page gets the top 945 and the left 370.
\<close>

lemma positionPopup_style:
  "currentPopup s = Some p \<Longrightarrow>
   currentPopup (positionPopup pg s) =
     Some (p\<lparr>styleTop := finalTop pg, styleLeft := finalLeft pg, visible := True,
             above := Some (positionAbove pg)\<rparr>)"
  by (simp add: positionPopup_def)

lemma loading_popup_placed:
  "map_option (\<lambda>p. (styleTop p, styleLeft p, above p))
     (currentPopup (run [Message scrolledPage (ShowLoading (str ''cat''))])) =
   Some (945, 370, Some True)"
  by (simp add: run_def step_def onMessage_def showLoadingPopup_def constructPopup_def
      createPopupElement_def positionPopup_def setupPopupEventListeners_def
      removeCurrentPopup_def initial_def scrolledPage_def positionAbove_def finalTop_def
      vertical_def spaceAbove_def spaceBelow_def popupHeight_def popupWidth_def
      viewportWidth_def margin_def scrollTop_def scrollLeft_def orElse_def centredLeft_def
      finalLeft_def minLeft_def maxLeft_def)

end
